theory Spec2Isabelle
  imports Main "HOL-Library.Sublist"
begin

section \<open>Data model\<close>

text \<open>
  Plain JSON values: the translated (JSON) schemas, the tag definitions and the fields a
  schema-bearing object carries beside its \<open>schema\<close>. The object literal \<open>{}\<close> of
  the source is \<open>JObj []\<close>.
\<close>

datatype json =
    JNull
  | JBool bool
  | JNum int
  | JStr string
  | JArr "json list"
  | JObj "(string \<times> json) list"

text \<open>
  An object with a \<open>schema\<close> field (\<open>T extends { schema: z.ZodObject<any> }\<close> in
  \<open>_mapSchema\<close>). \<open>'s\<close> is the type of the schema: the validation library's schema
  object in a raw definition, \<open>json\<close> after translation. \<open>other\<close> holds the
  remaining own fields of the object, the ones the spread \<open>...x\<close> copies.
\<close>

record 's schema_def =
  schema :: 's
  other :: "(string \<times> json) list"

text \<open>\<open>{ enabled: boolean, requiredTags: string[] }\<close>\<close>

record creation_def =
  enabled :: bool
  requiredTags :: "string list"

text \<open>\<open>message?: { tags?: ... }\<close> of a channel\<close>

record message_def =
  tags :: "(string \<times> json) list option"

text \<open>
  \<open>{ tags?: ..., creation?: ... }\<close>: the shape of \<open>user\<close> and of a channel's
  \<open>conversation\<close>. An optional field is an \<open>option\<close>; \<open>None\<close> is \<open>undefined\<close>.
\<close>

record tags_creation =
  tags :: "(string \<times> json) list option"
  creation :: "creation_def option"

record 's action_def =
  input :: "'s schema_def"
  "output" :: "'s schema_def"

record 's channel_def =
  conversation :: "tags_creation option"
  message :: "message_def option"
  messages :: "(string \<times> 's schema_def) list"

text \<open>
  The integration definition, with the fields \<open>_mapIntegration\<close> reads. A
  \<open>Record<string, X>\<close> is an association list in the object's key order. The same
  shape serves for the raw definition (\<open>bpsdk.IntegrationDefinition\<close>, \<open>'s\<close> the
  validation schema) and for the mapped one (\<open>types.IntegrationDefinition\<close>,
  \<open>'s = json\<close>); \<open>create\<close> still reads the mapped sections through \<open>??\<close>.
\<close>

record 's integration_definition =
  name :: string
  version :: string
  user :: "tags_creation option"
  configuration :: "'s schema_def option"
  events :: "(string \<times> 's schema_def) list option"
  states :: "(string \<times> 's schema_def) list option"
  actions :: "(string \<times> 's action_def) list option"
  channels :: "(string \<times> 's channel_def) list option"

section \<open>The definition mapper\<close>

text \<open>\<open>utils.records.mapValues(record, fn)\<close>: the same keys, each value mapped.\<close>

definition mapValues :: "(string \<times> 'a) list \<Rightarrow> ('a \<Rightarrow> 'b) \<Rightarrow> (string \<times> 'b) list" where
  "mapValues r f = map (\<lambda>(k, v). (k, f v)) r"

text \<open>
  \<open>_mapSchema\<close>: \<open>{ ...x, schema: utils.schema.mapZodToJsonSchema(x) }\<close>. The
  translator \<open>mapZodToJsonSchema\<close> receives the whole object; it is a parameter.
\<close>

definition mapSchema :: "('s schema_def \<Rightarrow> json) \<Rightarrow> 's schema_def \<Rightarrow> json schema_def" where
  "mapSchema mapZodToJsonSchema x = \<lparr>schema = mapZodToJsonSchema x, other = other x\<rparr>"

text \<open>The value of \<open>x?.f ?? d\<close> for an optional object \<open>x\<close> with optional field \<open>f\<close>.\<close>

definition field_or :: "'r option \<Rightarrow> ('r \<Rightarrow> 'a option) \<Rightarrow> 'a \<Rightarrow> 'a" where
  "field_or x f d = (case x of None \<Rightarrow> d | Some r \<Rightarrow> (case f r of None \<Rightarrow> d | Some v \<Rightarrow> v))"

definition mapChannel :: "('s schema_def \<Rightarrow> json) \<Rightarrow> 's channel_def \<Rightarrow> json channel_def" where
  "mapChannel tr c =
     \<lparr>conversation = Some
        \<lparr>tags = Some (field_or (conversation c) tags_creation.tags []),
         creation = Some (field_or (conversation c) creation \<lparr>enabled = False, requiredTags = []\<rparr>)\<rparr>,
      message = Some \<lparr>message_def.tags = Some (field_or (message c) message_def.tags [])\<rparr>,
      messages = mapValues (messages c) (mapSchema tr)\<rparr>"

definition mapAction :: "('s schema_def \<Rightarrow> json) \<Rightarrow> 's action_def \<Rightarrow> json action_def" where
  "mapAction tr a = \<lparr>input = mapSchema tr (input a), output = mapSchema tr (output a)\<rparr>"

text \<open>\<open>_mapIntegration\<close>, field by field as in the source.\<close>

definition mapIntegration ::
  "('s schema_def \<Rightarrow> json) \<Rightarrow> 's integration_definition \<Rightarrow> json integration_definition" where
  "mapIntegration tr i =
     \<lparr>name = name i,
      version = version i,
      user = Some
        \<lparr>tags = Some (field_or (user i) tags_creation.tags []),
         creation = Some (field_or (user i) creation \<lparr>enabled = False, requiredTags = []\<rparr>)\<rparr>,
      configuration =
        (case configuration i of
           Some c \<Rightarrow> Some (mapSchema tr c)
         | None \<Rightarrow> Some \<lparr>schema = JObj [], other = []\<rparr>),
      events =
        (case events i of Some es \<Rightarrow> Some (mapValues es (mapSchema tr)) | None \<Rightarrow> Some []),
      states =
        (case states i of Some ss \<Rightarrow> Some (mapValues ss (mapSchema tr)) | None \<Rightarrow> Some []),
      actions =
        (case actions i of Some as \<Rightarrow> Some (mapValues as (mapAction tr)) | None \<Rightarrow> Some []),
      channels =
        (case channels i of Some cs \<Rightarrow> Some (mapValues cs (mapChannel tr)) | None \<Rightarrow> Some [])\<rparr>"

section \<open>Generation units\<close>

text \<open>
  \<open>ModuleDef\<close>, the argument of the \<open>Module\<close> constructor as
  \<open>IntegrationImplementationIndexModule.create\<close> builds it:
  \<open>{ path, exportName, content }\<close>. The path is kept as its sequence of segments;
  the single file name \<open>INDEX_FILE\<close> is the one-segment path.
\<close>

record ModuleDef =
  path :: "string list"
  exportName :: string
  content :: string

text \<open>
  Modelled from the spec: the \<open>Module\<close> base class of \<open>./module\<close>, which is
  not among the source files. A generation unit has its relative path segments, its
  exported symbol name and its stored content (the \<open>ModuleDef\<close>), and the modules
  it depends on.
\<close>

datatype module = Module (def: ModuleDef) (deps: "module list")

text \<open>
  Modelled from the spec: \<open>Module.unshift\<close>. The path of a module is a prefix chain
  onto which a segment is pushed at the front when the module is nested under a section
  name.
\<close>

definition unshift :: "string \<Rightarrow> module \<Rightarrow> module" where
  "unshift segment m = Module ((def m)\<lparr>path := segment # path (def m)\<rparr>) (deps m)"

text \<open>
  Modelled from the spec: \<open>Module.pushDep\<close> registers a one-directional dependency
  edge and does nothing else.
\<close>

definition pushDep :: "module \<Rightarrow> module \<Rightarrow> module" where
  "pushDep m d = Module (def m) (deps m @ [d])"

text \<open>
  Modelled from the spec: \<open>Module.exports\<close>, the aggregate export identifier, fixed
  when the module is created.
\<close>

definition exports :: "module \<Rightarrow> string" where
  "exports m = exportName (def m)"


text \<open>
  What \<open>IntegrationImplementationIndexModule\<close> imports from files that are not
  among the source files, as parameters: the two constants, the schema translator,
  \<open>stringifySingleLine\<close>, the \<open>create\<close> functions of the five leaf modules, and the
  \<open>name\<close> getter and the \<open>import\<close> method of \<open>Module\<close>
  (\<open>Module_import E m base\<close> is \<open>m.import(base)\<close>).
\<close>

record 's imported =
  GENERATED_HEADER :: string
  INDEX_FILE :: string
  mapZodToJsonSchema :: "'s schema_def \<Rightarrow> json"
  stringifySingleLine :: "tags_creation option \<Rightarrow> string"
  ConfigurationModule_create :: "json schema_def \<Rightarrow> module"
  ActionsModule_create :: "(string \<times> json action_def) list \<Rightarrow> module"
  ChannelsModule_create :: "(string \<times> json channel_def) list \<Rightarrow> module"
  EventsModule_create :: "(string \<times> json schema_def) list \<Rightarrow> module"
  StatesModule_create :: "(string \<times> json schema_def) list \<Rightarrow> module"
  Module_name :: "module \<Rightarrow> string"
  Module_import :: "module \<Rightarrow> module \<Rightarrow> string"

text \<open>
  An \<open>IntegrationImplementationIndexModule\<close>: the private fields of the class and
  \<open>self\<close>, its \<open>Module\<close> part.
\<close>

record index_module =
  integration :: "json integration_definition"
  configModule :: module
  actionsModule :: module
  channelsModule :: module
  eventsModule :: module
  statesModule :: module
  self :: module

section \<open>The index module\<close>

text \<open>The value of \<open>x ?? d\<close>.\<close>

definition nullish :: "'a option \<Rightarrow> 'a \<Rightarrow> 'a" where
  "nullish x d = (case x of None \<Rightarrow> d | Some v \<Rightarrow> v)"

text \<open>\<open>inst.pushDep(m)\<close> on the index module.\<close>

definition pushDepI :: "index_module \<Rightarrow> module \<Rightarrow> index_module" where
  "pushDepI inst m = inst\<lparr>self := pushDep (self inst) m\<rparr>"

text \<open>
  \<open>IntegrationImplementationIndexModule.create\<close>. The awaits run one after the
  other; \<open>m.unshift(s)\<close> changes \<open>m\<close> before anything else holds it, so the
  changed module is the one passed on.
\<close>

definition create :: "'s imported \<Rightarrow> 's integration_definition \<Rightarrow> index_module" where
  "create E sdkIntegration =
     (let integration' = mapIntegration (mapZodToJsonSchema E) sdkIntegration;
          configModule' = unshift ''configuration''
            (ConfigurationModule_create E
               (nullish (configuration integration') \<lparr>schema = JObj [], other = []\<rparr>));
          actionsModule' = unshift ''actions''
            (ActionsModule_create E (nullish (actions integration') []));
          channelsModule' = unshift ''channels''
            (ChannelsModule_create E (nullish (channels integration') []));
          eventsModule' = unshift ''events''
            (EventsModule_create E (nullish (events integration') []));
          statesModule' = unshift ''states''
            (StatesModule_create E (nullish (states integration') []));
          inst = \<lparr>integration = integration',
                  configModule = configModule',
                  actionsModule = actionsModule',
                  channelsModule = channelsModule',
                  eventsModule = eventsModule',
                  statesModule = statesModule',
                  self = Module \<lparr>path = [INDEX_FILE E], exportName = ''Integration'',
                                 content = []\<rparr> []\<rparr>;
          inst = pushDepI inst configModule';
          inst = pushDepI inst actionsModule';
          inst = pushDepI inst channelsModule';
          inst = pushDepI inst eventsModule';
          inst = pushDepI inst statesModule'
      in inst)"

text \<open>\<open>Array.prototype.join\<close>\<close>

fun join :: "string \<Rightarrow> string list \<Rightarrow> string" where
  "join sep [] = []"
| "join sep [x] = x"
| "join sep (x # y # ys) = x @ sep @ join sep (y # ys)"

text \<open>The array literal of the \<open>content\<close> getter, one element per line of the source.\<close>

definition content_lines :: "'s imported \<Rightarrow> index_module \<Rightarrow> string list" where
  \<open>content_lines E this =
     (let configImport = Module_import E (configModule this) (self this);
          actionsImport = Module_import E (actionsModule this) (self this);
          channelsImport = Module_import E (channelsModule this) (self this);
          eventsImport = Module_import E (eventsModule this) (self this);
          statesImport = Module_import E (statesModule this) (self this)
      in
      [GENERATED_HEADER E,
       ''import * as sdk from "@botpress/sdk"'',
       [],
       ''import type * as '' @ Module_name E (configModule this) @ '' from "./'' @ configImport @ ''"'',
       ''import type * as '' @ Module_name E (actionsModule this) @ '' from "./'' @ actionsImport @ ''"'',
       ''import type * as '' @ Module_name E (channelsModule this) @ '' from "./'' @ channelsImport @ ''"'',
       ''import type * as '' @ Module_name E (eventsModule this) @ '' from "./'' @ eventsImport @ ''"'',
       ''import type * as '' @ Module_name E (statesModule this) @ '' from "./'' @ statesImport @ ''"'',
       ''export * as '' @ Module_name E (configModule this) @ '' from "./'' @ configImport @ ''"'',
       ''export * as '' @ Module_name E (actionsModule this) @ '' from "./'' @ actionsImport @ ''"'',
       ''export * as '' @ Module_name E (channelsModule this) @ '' from "./'' @ channelsImport @ ''"'',
       ''export * as '' @ Module_name E (eventsModule this) @ '' from "./'' @ eventsImport @ ''"'',
       ''export * as '' @ Module_name E (statesModule this) @ '' from "./'' @ statesImport @ ''"'',
       [],
       ''type TIntegration = {'',
       ''  name: "'' @ name (integration this) @ ''"'',
       ''  version: "'' @ version (integration this) @ ''"'',
       ''  configuration: '' @ Module_name E (configModule this) @ ''.'' @ exports (configModule this),
       ''  actions: '' @ Module_name E (actionsModule this) @ ''.'' @ exports (actionsModule this),
       ''  channels: '' @ Module_name E (channelsModule this) @ ''.'' @ exports (channelsModule this),
       ''  events: '' @ Module_name E (eventsModule this) @ ''.'' @ exports (eventsModule this),
       ''  states: '' @ Module_name E (statesModule this) @ ''.'' @ exports (statesModule this),
       ''  user: '' @ stringifySingleLine E (user (integration this)),
       ''}'',
       [],
       ''export type IntegrationProps = sdk.IntegrationProps<TIntegration>'',
       [],
       ''export class Integration extends sdk.Integration<TIntegration> {}'',
       [],
       ''export type Client = sdk.IntegrationSpecificClient<TIntegration>''])\<close>

text \<open>
  The \<open>content\<close> getter of the index module:
  \<open>let content = GENERATED_HEADER; content += [ ... ].join('\n'); return content\<close>.
\<close>

definition IndexModule_content :: "'s imported \<Rightarrow> index_module \<Rightarrow> string" where
  "IndexModule_content E this = GENERATED_HEADER E @ join [CHR 0x0A] (content_lines E this)"

section \<open>The project command: loading a definition and writing the files\<close>

text \<open>
  \<open>parseIntegrationDefinition\<close> of the project command, on the fields modelled here
  (the spreads copy the others): every present schema is translated, and an absent
  section stays \<open>undefined\<close>. Its result goes to the API client, not to the generators.
\<close>

definition parseIntegrationDefinition ::
  "('s schema_def \<Rightarrow> json) \<Rightarrow> 's integration_definition \<Rightarrow> json integration_definition" where
  "parseIntegrationDefinition tr i =
     \<lparr>name = name i,
      version = version i,
      user = user i,
      configuration =
        (case configuration i of Some c \<Rightarrow> Some (mapSchema tr c) | None \<Rightarrow> None),
      events =
        (case events i of Some es \<Rightarrow> Some (mapValues es (mapSchema tr)) | None \<Rightarrow> None),
      states =
        (case states i of Some ss \<Rightarrow> Some (mapValues ss (mapSchema tr)) | None \<Rightarrow> None),
      actions =
        (case actions i of Some as \<Rightarrow> Some (mapValues as (mapAction tr)) | None \<Rightarrow> None),
      channels =
        (case channels i of
           Some cs \<Rightarrow> Some (mapValues cs (\<lambda>c.
             \<lparr>conversation = conversation c, message = message c,
              messages = mapValues (messages c) (mapSchema tr)\<rparr>))
         | None \<Rightarrow> None)\<rparr>"

text \<open>
  What \<open>readIntegrationDefinitionFromFS\<close> can throw: its own \<open>BotpressCLIError\<close>,
  or whatever the bundler or the evaluation of the bundle throws, passed on as it is.
\<close>

datatype error = BotpressCLIError string | BuildFailed string | RequireFailed string

text \<open>The calls \<open>readIntegrationDefinitionFromFS\<close> makes, in order.\<close>

datatype call = ExistsSync | LoggerDebug string | BuildEntrypoint | RequireJsCode string

text \<open>
  The world \<open>readIntegrationDefinitionFromFS\<close> runs in: whether the definition file
  exists, what \<open>utils.esbuild.buildEntrypoint\<close> gives (it throws, or returns the texts
  of its output files), and what \<open>utils.require.requireJsCode\<close> gives on a text (it
  throws, or returns a module whose \<open>default\<close> export may be missing: the type
  argument of the call is not checked at run time).
\<close>

record 'd load_env =
  rel_definition :: string
  existsSync :: bool
  buildEntrypoint :: "error + string list"
  requireJsCode :: "string \<Rightarrow> error + 'd option"

text \<open>
  \<open>readIntegrationDefinitionFromFS\<close>: the result (\<open>Inl\<close> a thrown error, \<open>Inr None\<close>
  the value \<open>undefined\<close>) and the calls made.
\<close>

definition readIntegrationDefinitionFromFS :: "'d load_env \<Rightarrow> (error + 'd option) \<times> call list" where
  "readIntegrationDefinitionFromFS W =
     (if \<not> existsSync W then
        (Inr None,
         [ExistsSync, LoggerDebug (''Integration definition not found at '' @ rel_definition W)])
      else
        (case buildEntrypoint W of
           Inl e \<Rightarrow> (Inl e, [ExistsSync, BuildEntrypoint])
         | Inr outputFiles \<Rightarrow>
            (case outputFiles of
               [] \<Rightarrow>
                 (Inl (BotpressCLIError ''Could not read integration definition''),
                  [ExistsSync, BuildEntrypoint])
             | artifact # _ \<Rightarrow>
                (case requireJsCode W artifact of
                   Inl e \<Rightarrow> (Inl e, [ExistsSync, BuildEntrypoint, RequireJsCode artifact])
                 | Inr definition \<Rightarrow>
                     (Inr definition, [ExistsSync, BuildEntrypoint, RequireJsCode artifact])))))"

text \<open>\<open>codegen.File\<close>: a path and the content, both strings.\<close>

record File =
  file_path :: string
  file_content :: string

text \<open>
  A path the file system is given, as its sequence of segments from the root, as
  written: it may hold \<open>.\<close> and \<open>..\<close>. The system resolves them when it walks the
  path; \<open>..\<close> at the root stays at the root.
\<close>

definition resolve :: "string list \<Rightarrow> string list" where
  "resolve p =
     rev (fold (\<lambda>seg acc.
            if seg = ''.'' \<or> seg = [] then acc
            else if seg = ''..'' then tl acc
            else seg # acc) p [])"

text \<open>
  The file system as \<open>fs.promises.mkdir\<close> and \<open>fs.promises.writeFile\<close> see it: the
  directories that exist and the files with their content, both by resolved absolute
  path (the root is \<open>[]\<close>).
\<close>

record fs_state =
  dirs :: "string list set"
  files :: "string list \<rightharpoonup> string"

datatype fs_error = EEXIST | ENOTDIR | ENOENT | EISDIR

text \<open>The directories on the way to \<open>p\<close>, \<open>p\<close> included, each resolved.\<close>

definition needed_dirs :: "string list \<Rightarrow> string list list" where
  "needed_dirs p = map resolve (prefixes p)"

text \<open>
  \<open>fs.promises.mkdir(p, { recursive: true })\<close>: creates \<open>p\<close> and every missing
  directory on the way; a directory that is there already is left alone. A file at
  \<open>p\<close> is \<open>EEXIST\<close>, a file on the way is \<open>ENOTDIR\<close>.
\<close>

definition mkdir_recursive :: "string list \<Rightarrow> fs_state \<Rightarrow> fs_error + fs_state" where
  "mkdir_recursive p s =
     (if files s (resolve p) \<noteq> None then Inl EEXIST
      else if list_ex (\<lambda>q. files s q \<noteq> None) (needed_dirs p) then Inl ENOTDIR
      else Inr (s\<lparr>dirs := dirs s \<union> set (needed_dirs p)\<rparr>))"

text \<open>\<open>pathlib.dirname\<close>: the path without its last segment, as written.\<close>

definition dirname :: "string list \<Rightarrow> string list" where
  "dirname p = butlast p"

text \<open>
  \<open>fs.promises.writeFile(p, c)\<close>: fails when a file stands on the way to \<open>p\<close>
  (\<open>ENOTDIR\<close>), when a directory on the way does not exist (\<open>ENOENT\<close>) or when
  \<open>p\<close> is a directory (\<open>EISDIR\<close>); otherwise \<open>p\<close> holds \<open>c\<close>, whatever it held
  before.
\<close>

definition writeFile :: "string list \<Rightarrow> string \<Rightarrow> fs_state \<Rightarrow> fs_error + fs_state" where
  "writeFile p c s =
     (if list_ex (\<lambda>q. files s q \<noteq> None) (needed_dirs (dirname p)) then Inl ENOTDIR
      else if list_ex (\<lambda>q. q \<notin> dirs s) (needed_dirs (dirname p)) then Inl ENOENT
      else if resolve p \<in> dirs s then Inl EISDIR
      else Inr (s\<lparr>files := (files s)(resolve p \<mapsto> c)\<rparr>))"

text \<open>
  \<open>writeGeneratedFilesToOutFolder\<close>: the loop over the files; a rejected promise ends
  it. \<open>utils.path.absoluteFrom\<close> is not among the source files and is the parameter
  \<open>absoluteFrom\<close>: from the output directory and the path of a file, the path that
  is written.
\<close>

fun writeGeneratedFilesToOutFolder ::
  "(string list \<Rightarrow> string \<Rightarrow> string list) \<Rightarrow> string list \<Rightarrow> File list \<Rightarrow> fs_state
     \<Rightarrow> fs_error + fs_state" where
  "writeGeneratedFilesToOutFolder absoluteFrom outDir [] s = Inr s"
| "writeGeneratedFilesToOutFolder absoluteFrom outDir (file # rest) s =
     (let filePath = absoluteFrom outDir (file_path file);
          dirPath = dirname filePath
      in case mkdir_recursive dirPath s of
           Inl e \<Rightarrow> Inl e
         | Inr s1 \<Rightarrow>
            (case writeFile filePath (file_content file) s1 of
               Inl e \<Rightarrow> Inl e
             | Inr s2 \<Rightarrow> writeGeneratedFilesToOutFolder absoluteFrom outDir rest s2))"

section \<open>Sample inputs\<close>

text \<open>A definition with a name and a version and nothing else.\<close>

definition bare_definition :: "json integration_definition" where
  "bare_definition =
     \<lparr>name = ''demo'', version = ''1.0.0'', user = None, configuration = None,
      events = None, states = None, actions = None, channels = None\<rparr>"

text \<open>A definition with every section present and some fields left out inside.\<close>

definition full_definition :: "json integration_definition" where
  "full_definition =
     \<lparr>name = ''demo'', version = ''1.0.0'',
      user = Some \<lparr>tags = Some [(''id'', JObj [])], creation = None\<rparr>,
      configuration = Some \<lparr>schema = JObj [(''token'', JStr ''string'')], other = []\<rparr>,
      events = Some [(''created'', \<lparr>schema = JObj [], other = [(''title'', JStr ''Created'')]\<rparr>)],
      states = Some [],
      actions = Some [(''ping'',
        \<lparr>input = \<lparr>schema = JObj [], other = []\<rparr>,
         output = \<lparr>schema = JObj [(''message'', JStr ''string'')], other = []\<rparr>\<rparr>)],
      channels = Some [(''channel'',
        \<lparr>conversation = None, message = None,
         messages = [(''text'', \<lparr>schema = JObj [(''text'', JStr ''string'')], other = []\<rparr>)]\<rparr>)]\<rparr>"

text \<open>
  A translator that describes the object schema it is given:
  \<open>{ type: "object", properties: <the schema> }\<close>.
\<close>

definition describing_translator :: "json schema_def \<Rightarrow> json" where
  "describing_translator x = JObj [(''type'', JStr ''object''), (''properties'', schema x)]"






text \<open>\<open>String.prototype.split\<close> with a separator of one character.\<close>

fun split :: "char \<Rightarrow> string \<Rightarrow> string list" where
  "split sep [] = [[]]"
| "split sep (c # cs) =
     (if c = sep then [] # split sep cs
      else (case split sep cs of l # ls \<Rightarrow> (c # l) # ls | [] \<Rightarrow> [[c]]))"

text \<open>
  A sample \<open>absoluteFrom\<close>: a target that begins with \<open>/\<close> is taken as it is, any
  other is joined to the root and resolved.
\<close>

definition sample_absoluteFrom :: "string list \<Rightarrow> string \<Rightarrow> string list" where
  "sample_absoluteFrom root target =
     (if take 1 target = ''/'' then filter (\<lambda>seg. seg \<noteq> []) (split CHR ''/'' target)
      else resolve (root @ split CHR ''/'' target))"

text \<open>Two generated files in the same directory, and a disk with the root only.\<close>

definition sibling_files :: "File list" where
  "sibling_files =
     [\<lparr>file_path = ''actions/ping.ts'', file_content = ''export type Ping = {}''\<rparr>,
      \<lparr>file_path = ''actions/pong.ts'', file_content = ''export type Pong = {}''\<rparr>]"

definition empty_disk :: fs_state where
  "empty_disk = \<lparr>dirs = {[]}, files = Map.empty\<rparr>"

text \<open>
  A world where the definition file is missing, one where the bundler fails and one
  where the definition loads.
\<close>

definition missing_file_env :: "nat load_env" where
  "missing_file_env =
     \<lparr>rel_definition = ''integration.definition.ts'', existsSync = False,
      buildEntrypoint = Inr [''bundle''], requireJsCode = (\<lambda>t. Inr (Some 0))\<rparr>"

definition failing_build_env :: "nat load_env" where
  "failing_build_env =
     \<lparr>rel_definition = ''integration.definition.ts'', existsSync = True,
      buildEntrypoint = Inl (BuildFailed ''syntax error''), requireJsCode = (\<lambda>t. Inr (Some 0))\<rparr>"

definition loading_env :: "nat load_env" where
  "loading_env =
     \<lparr>rel_definition = ''integration.definition.ts'', existsSync = True,
      buildEntrypoint = Inr [''bundle''], requireJsCode = (\<lambda>t. Inr (Some 7))\<rparr>"

section \<open>Notions the properties are stated with\<close>















text \<open>
  The schema-bearing objects of a definition: the configuration, the events, the states,
  the input and the output of every action, the messages of every channel.
\<close>

definition schema_defs :: "'s integration_definition \<Rightarrow> 's schema_def list" where
  "schema_defs d =
     (case configuration d of None \<Rightarrow> [] | Some c \<Rightarrow> [c]) @
     (case events d of None \<Rightarrow> [] | Some es \<Rightarrow> map snd es) @
     (case states d of None \<Rightarrow> [] | Some ss \<Rightarrow> map snd ss) @
     (case actions d of None \<Rightarrow> [] | Some as \<Rightarrow> concat (map (\<lambda>(k, a). [input a, output a]) as)) @
     (case channels d of None \<Rightarrow> [] | Some cs \<Rightarrow> concat (map (\<lambda>(k, c). map snd (messages c)) cs))"

text \<open>
  A list of files that can be written on the disk \<open>s\<close>: no file is to be written
  where a directory is needed or is there already, and no file of the disk stands where
  a directory is needed.
\<close>

definition emittable ::
  "(string list \<Rightarrow> string \<Rightarrow> string list) \<Rightarrow> string list \<Rightarrow> File list \<Rightarrow> fs_state \<Rightarrow> bool" where
  "emittable absoluteFrom outDir fs s \<longleftrightarrow>
     (\<forall>f\<in>set fs. \<forall>g\<in>set fs.
        resolve (absoluteFrom outDir (file_path f)) \<notin>
          set (needed_dirs (dirname (absoluteFrom outDir (file_path g))))) \<and>
     (\<forall>f\<in>set fs. resolve (absoluteFrom outDir (file_path f)) \<notin> dirs s) \<and>
     (\<forall>q. files s q \<noteq> None \<longrightarrow>
        (\<forall>g\<in>set fs. q \<notin> set (needed_dirs (dirname (absoluteFrom outDir (file_path g))))))"

section \<open>The definition mapper: defaults\<close>

text \<open>
  C1. For every raw definition and every translator, the mapper puts the empty form in
  the place of an absent optional section: absent \<open>actions\<close>, \<open>events\<close>,
  \<open>states\<close> (and \<open>channels\<close>) become the empty mapping, an absent
  \<open>configuration\<close> becomes \<open>{ schema: {} }\<close>, an absent user \<open>creation\<close> rule
  (the user itself absent, or present without the rule) becomes
  \<open>{ enabled: false, requiredTags: [] }\<close>, and absent user tags become the empty
  mapping.
\<close>

theorem mapIntegration_defaults:
  "(actions i = None \<longrightarrow> actions (mapIntegration tr i) = Some []) \<and>
   (configuration i = None \<longrightarrow>
      configuration (mapIntegration tr i) = Some \<lparr>schema = JObj [], other = []\<rparr>) \<and>
   (events i = None \<longrightarrow> events (mapIntegration tr i) = Some []) \<and>
   (states i = None \<longrightarrow> states (mapIntegration tr i) = Some []) \<and>
   (channels i = None \<longrightarrow> channels (mapIntegration tr i) = Some []) \<and>
   ((user i = None \<or> (\<exists>u. user i = Some u \<and> creation u = None)) \<longrightarrow>
      (\<exists>u'. user (mapIntegration tr i) = Some u' \<and>
            creation u' = Some \<lparr>enabled = False, requiredTags = []\<rparr>)) \<and>
   ((user i = None \<or> (\<exists>u. user i = Some u \<and> tags u = None)) \<longrightarrow>
      (\<exists>u'. user (mapIntegration tr i) = Some u' \<and> tags u' = Some []))"
  by (auto simp: mapIntegration_def field_or_def)

theorem mapIntegration_defaults_witness:
  "actions (mapIntegration describing_translator bare_definition) = Some [] \<and>
   configuration (mapIntegration describing_translator bare_definition)
     = Some \<lparr>schema = JObj [], other = []\<rparr> \<and>
   events (mapIntegration describing_translator bare_definition) = Some [] \<and>
   states (mapIntegration describing_translator bare_definition) = Some [] \<and>
   channels (mapIntegration describing_translator bare_definition) = Some [] \<and>
   (\<exists>u'. user (mapIntegration describing_translator bare_definition) = Some u' \<and>
         creation u' = Some \<lparr>enabled = False, requiredTags = []\<rparr>) \<and>
   (\<exists>u'. user (mapIntegration describing_translator bare_definition) = Some u' \<and>
         tags u' = Some [])"
  using mapIntegration_defaults [of bare_definition describing_translator]
  by (simp add: bare_definition_def)

section \<open>The definition mapper: every section is there\<close>

lemma list_all_mapValues: "list_all (\<lambda>(k, v). P (f v)) r \<Longrightarrow> list_all (\<lambda>(k, v). P v) (mapValues r f)"
  by (induction r) (auto simp: mapValues_def)

lemma mapChannel_present:
  "\<exists>ct cc mt. conversation (mapChannel tr c) = Some \<lparr>tags = Some ct, creation = Some cc\<rparr> \<and>
     message (mapChannel tr c) = Some \<lparr>message_def.tags = Some mt\<rparr>"
  by (simp add: mapChannel_def)

lemma mapIntegration_channels_present:
  "channels (mapIntegration tr i) = Some ch \<Longrightarrow>
     list_all (\<lambda>(k, c). \<exists>ct cc mt.
        conversation c = Some \<lparr>tags = Some ct, creation = Some cc\<rparr> \<and>
        message c = Some \<lparr>message_def.tags = Some mt\<rparr>) ch"
proof (cases "channels i")
  case None
  assume "channels (mapIntegration tr i) = Some ch"
  with None show ?thesis by (simp add: mapIntegration_def)
next
  case (Some cs)
  assume "channels (mapIntegration tr i) = Some ch"
  with Some have ch: "ch = mapValues cs (mapChannel tr)" by (simp add: mapIntegration_def)
  have "list_all (\<lambda>(k, c). \<exists>ct cc mt.
          conversation (mapChannel tr c) = Some \<lparr>tags = Some ct, creation = Some cc\<rparr> \<and>
          message (mapChannel tr c) = Some \<lparr>message_def.tags = Some mt\<rparr>) cs"
    using mapChannel_present [of tr] by (simp add: list_all_iff split_beta)
  then show ?thesis unfolding ch by (rule list_all_mapValues)
qed

text \<open>
  C3. For every raw definition, the mapped definition has every optional section:
  the user with its tags and its creation rule, the configuration, the actions, the
  channels (each with its conversation tags and creation rule and its message tags), the
  events and the states. The five leaf modules of \<open>create\<close> are created from these
  sections themselves: no generator receives a missing section.
\<close>

theorem mapIntegration_materializes:
  "\<exists>t cr c a ch e s.
     user (mapIntegration (mapZodToJsonSchema E) i) = Some \<lparr>tags = Some t, creation = Some cr\<rparr> \<and>
     configuration (mapIntegration (mapZodToJsonSchema E) i) = Some c \<and>
     actions (mapIntegration (mapZodToJsonSchema E) i) = Some a \<and>
     channels (mapIntegration (mapZodToJsonSchema E) i) = Some ch \<and>
     events (mapIntegration (mapZodToJsonSchema E) i) = Some e \<and>
     states (mapIntegration (mapZodToJsonSchema E) i) = Some s \<and>
     list_all (\<lambda>(k, c). \<exists>ct cc mt.
        conversation c = Some \<lparr>tags = Some ct, creation = Some cc\<rparr> \<and>
        message c = Some \<lparr>message_def.tags = Some mt\<rparr>) ch \<and>
     configModule (create E i) = unshift ''configuration'' (ConfigurationModule_create E c) \<and>
     actionsModule (create E i) = unshift ''actions'' (ActionsModule_create E a) \<and>
     channelsModule (create E i) = unshift ''channels'' (ChannelsModule_create E ch) \<and>
     eventsModule (create E i) = unshift ''events'' (EventsModule_create E e) \<and>
     statesModule (create E i) = unshift ''states'' (StatesModule_create E s)"
proof -
  let ?d = "mapIntegration (mapZodToJsonSchema E) i"
  obtain t cr where u: "user ?d = Some \<lparr>tags = Some t, creation = Some cr\<rparr>"
    by (simp add: mapIntegration_def)
  obtain c where c: "configuration ?d = Some c"
    by (cases "configuration i") (simp_all add: mapIntegration_def)
  obtain a where a: "actions ?d = Some a"
    by (cases "actions i") (simp_all add: mapIntegration_def)
  obtain ch where ch: "channels ?d = Some ch"
    by (cases "channels i") (simp_all add: mapIntegration_def)
  obtain e where e: "events ?d = Some e"
    by (cases "events i") (simp_all add: mapIntegration_def)
  obtain s where s: "states ?d = Some s"
    by (cases "states i") (simp_all add: mapIntegration_def)
  have mods:
    "configModule (create E i) = unshift ''configuration'' (ConfigurationModule_create E c)"
    "actionsModule (create E i) = unshift ''actions'' (ActionsModule_create E a)"
    "channelsModule (create E i) = unshift ''channels'' (ChannelsModule_create E ch)"
    "eventsModule (create E i) = unshift ''events'' (EventsModule_create E e)"
    "statesModule (create E i) = unshift ''states'' (StatesModule_create E s)"
    using c a ch e s by (simp_all add: create_def Let_def pushDepI_def nullish_def)
  show ?thesis
    using u c a ch e s mods mapIntegration_channels_present [OF ch] by blast
qed

text \<open>
  The other mapper, \<open>parseIntegrationDefinition\<close> of the project command, does not
  fill in anything: an absent section stays absent.
\<close>

lemma parseIntegrationDefinition_keeps_absent:
  "configuration (parseIntegrationDefinition tr bare_definition) = None \<and>
   actions (parseIntegrationDefinition tr bare_definition) = None \<and>
   user (parseIntegrationDefinition tr bare_definition) = None"
  by (simp add: parseIntegrationDefinition_def bare_definition_def)

section \<open>The index module: layout and content\<close>

text \<open>
  C10. For every definition, the index module that \<open>create\<close> returns has the export
  name \<open>Integration\<close> and the path \<open>INDEX_FILE\<close>, its dependencies are its five leaf
  modules in the order configuration, actions, channels, events, states, and each leaf
  module is mounted under its fixed segment: the first segment of its path is the section
  name and the rest is the path the leaf's own \<open>create\<close> gave it.
\<close>

theorem create_layout:
  "exportName (def (self (create E i))) = ''Integration'' \<and>
   path (def (self (create E i))) = [INDEX_FILE E] \<and>
   deps (self (create E i)) =
     [configModule (create E i), actionsModule (create E i), channelsModule (create E i),
      eventsModule (create E i), statesModule (create E i)] \<and>
   map (\<lambda>m. hd (path (def m))) (deps (self (create E i))) =
     [''configuration'', ''actions'', ''channels'', ''events'', ''states''] \<and>
   (\<exists>c a ch e s.
      path (def (configModule (create E i))) =
        ''configuration'' # path (def (ConfigurationModule_create E c)) \<and>
      path (def (actionsModule (create E i))) =
        ''actions'' # path (def (ActionsModule_create E a)) \<and>
      path (def (channelsModule (create E i))) =
        ''channels'' # path (def (ChannelsModule_create E ch)) \<and>
      path (def (eventsModule (create E i))) =
        ''events'' # path (def (EventsModule_create E e)) \<and>
      path (def (statesModule (create E i))) =
        ''states'' # path (def (StatesModule_create E s)))"
proof -
  have "\<exists>c a ch e s.
      path (def (configModule (create E i))) =
        ''configuration'' # path (def (ConfigurationModule_create E c)) \<and>
      path (def (actionsModule (create E i))) =
        ''actions'' # path (def (ActionsModule_create E a)) \<and>
      path (def (channelsModule (create E i))) =
        ''channels'' # path (def (ChannelsModule_create E ch)) \<and>
      path (def (eventsModule (create E i))) =
        ''events'' # path (def (EventsModule_create E e)) \<and>
      path (def (statesModule (create E i))) =
        ''states'' # path (def (StatesModule_create E s))"
    apply (simp add: create_def Let_def pushDepI_def unshift_def)
    apply blast
    done
  then show ?thesis
    by (simp add: create_def Let_def pushDepI_def pushDep_def unshift_def)
qed

text \<open>
  C9. For every index module, the rendered content begins with the generated-code
  header twice in succession: once from the initial value of \<open>content\<close>, once as the
  first element of the joined array.
\<close>

theorem content_header_twice:
  "prefix (GENERATED_HEADER E @ GENERATED_HEADER E) (IndexModule_content E this) \<and>
   hd (content_lines E this) = GENERATED_HEADER E"
  by (simp add: IndexModule_content_def content_lines_def Let_def)

section \<open>The rendered content, line by line\<close>

lemma split_not_Nil: "split sep cs \<noteq> []"
  by (induction cs) (auto split: list.splits)















section \<open>Import aliases\<close>






section \<open>Mapping twice\<close>

lemma mapValues_mapValues: "mapValues (mapValues r f) g = mapValues r (g \<circ> f)"
  by (simp add: mapValues_def split_beta)

lemma mapValues_Nil: "mapValues [] f = []"
  by (simp add: mapValues_def)

lemma mapValues_fixed: "mapValues r f = r \<longleftrightarrow> list_all (\<lambda>v. f v = v) (map snd r)"
  by (induction r) (auto simp: mapValues_def)

lemma mapSchema_fixed: "mapSchema tr x = x \<longleftrightarrow> tr x = schema x"
  by (cases x) (auto simp: mapSchema_def)

lemma mapAction_fixed:
  "mapAction tr a = a \<longleftrightarrow> tr (input a) = schema (input a) \<and> tr (output a) = schema (output a)"
  by (cases a) (auto simp: mapAction_def mapSchema_fixed)

lemma remap_channel_fixed:
  "c\<lparr>messages := mapValues (messages c) (mapSchema tr)\<rparr> = c \<longleftrightarrow>
     list_all (\<lambda>x. tr x = schema x) (map snd (messages c))"
  by (cases c) (simp add: mapValues_fixed mapSchema_fixed)

lemma list_all_concat: "list_all P (concat xss) \<longleftrightarrow> list_all (list_all P) xss"
  by (induction xss) auto

lemma mapChannel_again:
  "mapChannel tr (mapChannel tr' c) =
     (mapChannel tr' c)\<lparr>messages := mapValues (messages (mapChannel tr' c)) (mapSchema tr)\<rparr>"
  by (simp add: mapChannel_def field_or_def)

text \<open>
  C2, as stated, fails: the mapper translates every schema it finds, with no test for a
  schema that is translated already, and writes \<open>{ schema: {} }\<close> for an absent
  configuration without translating it. With a translator that describes its argument,
  the definition with no section at all maps to a configuration \<open>{ schema: {} }\<close>, and
  mapping that result again gives the description of \<open>{}\<close> instead.
\<close>

theorem mapIntegration_twice_differs:
  "mapIntegration describing_translator (mapIntegration describing_translator bare_definition)
     \<noteq> mapIntegration describing_translator bare_definition"
  by (simp add: mapIntegration_def bare_definition_def mapSchema_def describing_translator_def)

lemma mapIntegration_on_mapped:
  fixes d :: "json integration_definition"
  assumes "user d = Some \<lparr>tags = Some t, creation = Some cr\<rparr>"
    and "configuration d = Some c" and "events d = Some e" and "states d = Some s"
    and "actions d = Some a" and "channels d = Some ch"
    and "list_all (\<lambda>(k, c). \<exists>ct cc mt.
        conversation c = Some \<lparr>tags = Some ct, creation = Some cc\<rparr> \<and>
        message c = Some \<lparr>message_def.tags = Some mt\<rparr>) ch"
  shows "mapIntegration tr d =
     d\<lparr>configuration := Some (mapSchema tr c),
       events := Some (mapValues e (mapSchema tr)),
       states := Some (mapValues s (mapSchema tr)),
       actions := Some (mapValues a (mapAction tr)),
       channels := Some (mapValues ch (\<lambda>c. c\<lparr>messages := mapValues (messages c) (mapSchema tr)\<rparr>))\<rparr>"
proof -
  have "mapValues ch (mapChannel tr) =
        mapValues ch (\<lambda>c. c\<lparr>messages := mapValues (messages c) (mapSchema tr)\<rparr>)"
    using assms(7)
    by (induction ch) (auto simp: mapValues_def mapChannel_def field_or_def)
  then show ?thesis
    using assms(1-6) by (cases d) (simp add: mapIntegration_def field_or_def)
qed


lemma schemas_fixed:
  "mapValues e (mapSchema tr) = e \<longleftrightarrow> list_all (\<lambda>x. tr x = schema x) (map snd e)"
  by (simp add: mapValues_fixed mapSchema_fixed)

lemma actions_fixed:
  "mapValues a (mapAction tr) = a \<longleftrightarrow>
     list_all (\<lambda>x. tr x = schema x) (concat (map (\<lambda>(k, a). [input a, output a]) a))"
  by (induction a) (auto simp: mapValues_def mapAction_fixed)

lemma channels_fixed:
  "mapValues ch (\<lambda>c. c\<lparr>messages := mapValues (messages c) (mapSchema tr)\<rparr>) = ch \<longleftrightarrow>
     list_all (\<lambda>x. tr x = schema x) (concat (map (\<lambda>(k, c). map snd (messages c)) ch))"
proof (induction ch)
  case Nil
  show ?case by (simp add: mapValues_def)
next
  case (Cons kc ch)
  obtain k c where kc: "kc = (k, c)" by (cases kc)
  have "mapValues (kc # ch) (\<lambda>c. c\<lparr>messages := mapValues (messages c) (mapSchema tr)\<rparr>) = kc # ch
      \<longleftrightarrow> c\<lparr>messages := mapValues (messages c) (mapSchema tr)\<rparr> = c \<and>
          mapValues ch (\<lambda>c. c\<lparr>messages := mapValues (messages c) (mapSchema tr)\<rparr>) = ch"
    by (simp add: kc mapValues_def)
  then show ?case
    using Cons.IH by (simp add: kc remap_channel_fixed)
qed

text \<open>
  C2, amended. For a translator that returns a value on every object it is given,
  mapping a mapped definition again keeps its name, its version, its user,
  and in every section the keys, the tags, the creation rules and the other fields of
  every schema-bearing object; it replaces every schema, the \<open>{}\<close> written for an
  absent configuration included, by the translator applied to the object that holds the
  translated schema. So the second mapping returns the mapped definition unchanged
  exactly when the translator returns, for every schema-bearing object of the mapped
  definition, the schema the object holds already.
\<close>

theorem mapIntegration_again:
  "(let M = mapIntegration tr i in
     name (mapIntegration tr M) = name M \<and>
     version (mapIntegration tr M) = version M \<and>
     user (mapIntegration tr M) = user M \<and>
     configuration (mapIntegration tr M) = map_option (mapSchema tr) (configuration M) \<and>
     events (mapIntegration tr M) = map_option (\<lambda>r. mapValues r (mapSchema tr)) (events M) \<and>
     states (mapIntegration tr M) = map_option (\<lambda>r. mapValues r (mapSchema tr)) (states M) \<and>
     actions (mapIntegration tr M) = map_option (\<lambda>r. mapValues r (mapAction tr)) (actions M) \<and>
     channels (mapIntegration tr M) =
       map_option (\<lambda>r. mapValues r
         (\<lambda>c. c\<lparr>messages := mapValues (messages c) (mapSchema tr)\<rparr>)) (channels M) \<and>
     (mapIntegration tr M = M \<longleftrightarrow> list_all (\<lambda>x. tr x = schema x) (schema_defs M)))"
proof -
  define M where "M = mapIntegration tr i"
  obtain t cr where u: "user M = Some \<lparr>tags = Some t, creation = Some cr\<rparr>"
    by (simp add: M_def mapIntegration_def)
  obtain c where c: "configuration M = Some c"
    by (cases "configuration i") (simp_all add: M_def mapIntegration_def)
  obtain a where a: "actions M = Some a"
    by (cases "actions i") (simp_all add: M_def mapIntegration_def)
  obtain ch where ch: "channels M = Some ch"
    by (cases "channels i") (simp_all add: M_def mapIntegration_def)
  obtain e where e: "events M = Some e"
    by (cases "events i") (simp_all add: M_def mapIntegration_def)
  obtain s where s: "states M = Some s"
    by (cases "states i") (simp_all add: M_def mapIntegration_def)
  have p: "list_all (\<lambda>(k, c). \<exists>ct cc mt.
        conversation c = Some \<lparr>tags = Some ct, creation = Some cc\<rparr> \<and>
        message c = Some \<lparr>message_def.tags = Some mt\<rparr>) ch"
    using ch unfolding M_def by (rule mapIntegration_channels_present)
  note again = mapIntegration_on_mapped [OF u c e s a ch p, of tr]
  have fields:
    "name (mapIntegration tr M) = name M"
    "version (mapIntegration tr M) = version M"
    "user (mapIntegration tr M) = user M"
    "configuration (mapIntegration tr M) = map_option (mapSchema tr) (configuration M)"
    "events (mapIntegration tr M) = map_option (\<lambda>r. mapValues r (mapSchema tr)) (events M)"
    "states (mapIntegration tr M) = map_option (\<lambda>r. mapValues r (mapSchema tr)) (states M)"
    "actions (mapIntegration tr M) = map_option (\<lambda>r. mapValues r (mapAction tr)) (actions M)"
    "channels (mapIntegration tr M) =
       map_option (\<lambda>r. mapValues r
         (\<lambda>c. c\<lparr>messages := mapValues (messages c) (mapSchema tr)\<rparr>)) (channels M)"
    by (simp_all add: again c e s a ch)
  have "mapIntegration tr M = M \<longleftrightarrow>
      mapSchema tr c = c \<and> mapValues e (mapSchema tr) = e \<and> mapValues s (mapSchema tr) = s \<and>
      mapValues a (mapAction tr) = a \<and>
      mapValues ch (\<lambda>c. c\<lparr>messages := mapValues (messages c) (mapSchema tr)\<rparr>) = ch"
    unfolding again using c e s a ch by (cases M) auto
  also have "\<dots> \<longleftrightarrow> list_all (\<lambda>x. tr x = schema x) (schema_defs M)"
    by (simp add: schema_defs_def c e s a ch mapSchema_fixed schemas_fixed actions_fixed
        channels_fixed)
  finally have "mapIntegration tr M = M \<longleftrightarrow> list_all (\<lambda>x. tr x = schema x) (schema_defs M)" .
  with fields show ?thesis
    unfolding Let_def M_def [symmetric] by simp
qed

theorem mapIntegration_again_witness:
  "configuration (mapIntegration describing_translator
      (mapIntegration describing_translator full_definition)) =
     Some \<lparr>schema = JObj [(''type'', JStr ''object''),
              (''properties'', JObj [(''type'', JStr ''object''),
                 (''properties'', JObj [(''token'', JStr ''string'')])])],
           other = []\<rparr> \<and>
   \<not> list_all (\<lambda>x. describing_translator x = schema x)
       (schema_defs (mapIntegration describing_translator full_definition)) \<and>
   mapIntegration describing_translator (mapIntegration describing_translator full_definition) \<noteq>
     mapIntegration describing_translator full_definition"
proof -
  have c: "configuration (mapIntegration describing_translator full_definition) =
      Some \<lparr>schema = JObj [(''type'', JStr ''object''),
                 (''properties'', JObj [(''token'', JStr ''string'')])], other = []\<rparr>"
    by (simp add: mapIntegration_def full_definition_def mapSchema_def describing_translator_def)
  then have n: "\<not> list_all (\<lambda>x. describing_translator x = schema x)
       (schema_defs (mapIntegration describing_translator full_definition))"
    by (simp add: schema_defs_def describing_translator_def)
  show ?thesis
    using mapIntegration_again [of describing_translator full_definition] c n
    by (simp add: Let_def mapSchema_def describing_translator_def)
qed

section \<open>Writing the generated files\<close>

lemma resolve_needed: "resolve p \<in> set (needed_dirs p)"
  by (simp add: needed_dirs_def)

lemma mkdir_recursive_Inr:
  "mkdir_recursive p s = Inr s1 \<longleftrightarrow>
     (\<forall>q \<in> set (needed_dirs p). files s q = None) \<and>
     s1 = s\<lparr>dirs := dirs s \<union> set (needed_dirs p)\<rparr>"
  using resolve_needed [of p]
  by (auto simp: mkdir_recursive_def list_ex_iff)

lemma mkdir_recursive_not_ENOENT: "mkdir_recursive p s \<noteq> Inl ENOENT"
  by (simp add: mkdir_recursive_def)

lemma mkdir_recursive_idem:
  "mkdir_recursive p s = Inr s1 \<Longrightarrow> mkdir_recursive p s1 = Inr s1"
  by (auto simp: mkdir_recursive_Inr)

lemma writeFile_after_mkdir:
  "mkdir_recursive (dirname p) s = Inr s1 \<Longrightarrow> writeFile p c s1 \<noteq> Inl ENOENT"
  by (auto simp: mkdir_recursive_Inr writeFile_def list_ex_iff)

lemma writeFile_Inr:
  "writeFile p c s = Inr s2 \<Longrightarrow> s2 = s\<lparr>files := (files s)(resolve p \<mapsto> c)\<rparr>"
  by (auto simp: writeFile_def split: if_splits)

lemma emitter_step:
  assumes "writeGeneratedFilesToOutFolder af outDir (g # fs) s = Inr s'"
  obtains s1 s2 where
    "mkdir_recursive (dirname (af outDir (file_path g))) s = Inr s1"
    "writeFile (af outDir (file_path g)) (file_content g) s1 = Inr s2"
    "writeGeneratedFilesToOutFolder af outDir fs s2 = Inr s'"
  using assms by (auto simp: Let_def split: sum.splits)

lemma emitter_not_ENOENT: "writeGeneratedFilesToOutFolder af outDir fs s \<noteq> Inl ENOENT"
proof (induction fs arbitrary: s)
  case Nil
  show ?case by simp
next
  case (Cons f fs)
  show ?case
    using Cons.IH mkdir_recursive_not_ENOENT writeFile_after_mkdir
    by (auto simp: Let_def split: sum.splits)
qed

lemma emitter_result:
  "writeGeneratedFilesToOutFolder af outDir fs s = Inr s' \<Longrightarrow>
     s' = \<lparr>dirs = dirs s \<union> (\<Union>f\<in>set fs. set (needed_dirs (dirname (af outDir (file_path f))))),
           files = fold (\<lambda>f m. m(resolve (af outDir (file_path f)) \<mapsto> file_content f)) fs (files s)\<rparr>"
proof (induction fs arbitrary: s)
  case Nil
  then show ?case by simp
next
  case (Cons g fs)
  from Cons.prems obtain s1 s2 where
    m: "mkdir_recursive (dirname (af outDir (file_path g))) s = Inr s1" and
    w: "writeFile (af outDir (file_path g)) (file_content g) s1 = Inr s2" and
    r: "writeGeneratedFilesToOutFolder af outDir fs s2 = Inr s'"
    by (rule emitter_step)
  have s1: "s1 = s\<lparr>dirs := dirs s \<union> set (needed_dirs (dirname (af outDir (file_path g))))\<rparr>"
    using m by (simp add: mkdir_recursive_Inr)
  have s2: "s2 = s1\<lparr>files := (files s1)(resolve (af outDir (file_path g)) \<mapsto> file_content g)\<rparr>"
    using w by (rule writeFile_Inr)
  show ?case
    using Cons.IH [OF r] by (auto simp: s1 s2)
qed

lemma emittable_Cons:
  assumes "emittable af outDir (g # fs) s"
  shows "\<forall>q \<in> set (needed_dirs (dirname (af outDir (file_path g)))). files s q = None"
    and "resolve (af outDir (file_path g)) \<notin> dirs s"
    and "resolve (af outDir (file_path g)) \<notin>
           set (needed_dirs (dirname (af outDir (file_path g))))"
    and "emittable af outDir fs
           (s\<lparr>dirs := dirs s \<union> set (needed_dirs (dirname (af outDir (file_path g)))),
              files := (files s)(resolve (af outDir (file_path g)) \<mapsto> file_content g)\<rparr>)"
proof -
  let ?A = "\<lambda>f. af outDir (file_path f)"
  let ?D = "\<lambda>f. set (needed_dirs (dirname (?A f)))"
  from assms have P:
    "(\<forall>f\<in>set (g # fs). \<forall>h\<in>set (g # fs). resolve (?A f) \<notin> ?D h) \<and>
     (\<forall>f\<in>set (g # fs). resolve (?A f) \<notin> dirs s) \<and>
     (\<forall>q. files s q \<noteq> None \<longrightarrow> (\<forall>h\<in>set (g # fs). q \<notin> ?D h))"
    unfolding emittable_def .
  note P1 = P [THEN conjunct1] and P2 = P [THEN conjunct2, THEN conjunct1]
    and P3 = P [THEN conjunct2, THEN conjunct2]
  have g: "g \<in> set (g # fs)" by simp
  have sub: "\<And>f. f \<in> set fs \<Longrightarrow> f \<in> set (g # fs)" by simp
  show "\<forall>q \<in> ?D g. files s q = None" using P3 g by blast
  show "resolve (?A g) \<notin> dirs s" using P2 g by blast
  show "resolve (?A g) \<notin> ?D g" using P1 g by blast
  have Q1: "\<forall>f\<in>set fs. \<forall>h\<in>set fs. resolve (?A f) \<notin> ?D h"
    using P1 sub by blast
  have Q2: "\<forall>f\<in>set fs. resolve (?A f) \<notin> dirs s \<union> ?D g"
    using P1 P2 sub g by blast
  have Q3: "\<forall>q. ((files s)(resolve (?A g) \<mapsto> file_content g)) q \<noteq> None \<longrightarrow>
              (\<forall>h\<in>set fs. q \<notin> ?D h)"
  proof (intro allI impI ballI)
    fix q h
    assume q: "((files s)(resolve (?A g) \<mapsto> file_content g)) q \<noteq> None" and h: "h \<in> set fs"
    show "q \<notin> ?D h"
    proof (cases "q = resolve (?A g)")
      case True
      then show ?thesis using P1 g sub [OF h] by blast
    next
      case False
      with q have "files s q \<noteq> None" by simp
      then show ?thesis using P3 sub [OF h] by blast
    qed
  qed
  show "emittable af outDir fs
           (s\<lparr>dirs := dirs s \<union> ?D g,
              files := (files s)(resolve (?A g) \<mapsto> file_content g)\<rparr>)"
    unfolding emittable_def using Q1 Q2 Q3 by simp
qed

lemma emitter_succeeds:
  "emittable af outDir fs s \<Longrightarrow> \<exists>s'. writeGeneratedFilesToOutFolder af outDir fs s = Inr s'"
proof (induction fs arbitrary: s)
  case Nil
  show ?case by simp
next
  case (Cons g fs)
  let ?p = "af outDir (file_path g)"
  let ?s1 = "s\<lparr>dirs := dirs s \<union> set (needed_dirs (dirname ?p))\<rparr>"
  let ?s2 = "s\<lparr>dirs := dirs s \<union> set (needed_dirs (dirname ?p)),
               files := (files s)(resolve ?p \<mapsto> file_content g)\<rparr>"
  note E = emittable_Cons [OF Cons.prems]
  have m: "mkdir_recursive (dirname ?p) s = Inr ?s1"
    using E(1) by (simp add: mkdir_recursive_Inr)
  have "\<not> list_ex (\<lambda>q. files ?s1 q \<noteq> None) (needed_dirs (dirname ?p))"
    using E(1) by (simp add: list_ex_iff)
  moreover have "\<not> list_ex (\<lambda>q. q \<notin> dirs ?s1) (needed_dirs (dirname ?p))"
    by (simp add: list_ex_iff)
  moreover have "resolve ?p \<notin> dirs ?s1"
    using E(2) E(3) by simp
  ultimately have w: "writeFile ?p (file_content g) ?s1 = Inr ?s2"
    by (simp add: writeFile_def)
  from Cons.IH [OF E(4)] obtain s' where
    "writeGeneratedFilesToOutFolder af outDir fs ?s2 = Inr s'" ..
  then show ?case using m w by (simp add: Let_def)
qed

text \<open>
  C7. For every list of generated files, every disk and every way of resolving a file's
  path below the output directory: the directories on the way to a file exist when the
  file is written (the run never fails for a missing directory); a successful run leaves
  exactly the directories of the disk together with the directory of every file and all
  directories on the way to it, and exactly the files of the disk with every listed file
  holding its content; creating a directory that is there already is not an error, since
  a second \<open>mkdir\<close> of the same path succeeds and changes nothing, and a writable list
  of files is written to the end whatever directories its files share.
\<close>

theorem writeGeneratedFilesToOutFolder_directories:
  "writeGeneratedFilesToOutFolder af outDir fs s \<noteq> Inl ENOENT \<and>
   (\<forall>s'. writeGeneratedFilesToOutFolder af outDir fs s = Inr s' \<longrightarrow>
      s' = \<lparr>dirs = dirs s \<union>
               (\<Union>f\<in>set fs. set (needed_dirs (dirname (af outDir (file_path f))))),
            files = fold (\<lambda>f m. m(resolve (af outDir (file_path f)) \<mapsto> file_content f))
                      fs (files s)\<rparr>) \<and>
   (emittable af outDir fs s \<longrightarrow> (\<exists>s'. writeGeneratedFilesToOutFolder af outDir fs s = Inr s')) \<and>
   (\<forall>p s1. mkdir_recursive p s = Inr s1 \<longrightarrow> mkdir_recursive p s1 = Inr s1)"
proof (intro conjI allI impI)
  show "writeGeneratedFilesToOutFolder af outDir fs s \<noteq> Inl ENOENT"
    by (rule emitter_not_ENOENT)
next
  fix s'
  assume "writeGeneratedFilesToOutFolder af outDir fs s = Inr s'"
  then show "s' = \<lparr>dirs = dirs s \<union>
               (\<Union>f\<in>set fs. set (needed_dirs (dirname (af outDir (file_path f))))),
            files = fold (\<lambda>f m. m(resolve (af outDir (file_path f)) \<mapsto> file_content f))
                      fs (files s)\<rparr>"
    by (rule emitter_result)
next
  assume "emittable af outDir fs s"
  then show "\<exists>s'. writeGeneratedFilesToOutFolder af outDir fs s = Inr s'"
    by (rule emitter_succeeds)
next
  fix p s1
  assume "mkdir_recursive p s = Inr s1"
  then show "mkdir_recursive p s1 = Inr s1"
    by (rule mkdir_recursive_idem)
qed

lemma sample_paths:
  "sample_absoluteFrom [''out''] ''actions/ping.ts'' = [''out'', ''actions'', ''ping.ts'']"
  "sample_absoluteFrom [''out''] ''actions/pong.ts'' = [''out'', ''actions'', ''pong.ts'']"
  by (simp_all add: sample_absoluteFrom_def resolve_def)

lemma sample_needed:
  "needed_dirs [''out'', ''actions''] = [[], [''out''], [''out'', ''actions'']]"
  by (simp add: needed_dirs_def resolve_def)

theorem writeGeneratedFilesToOutFolder_directories_witness:
  "emittable sample_absoluteFrom [''out''] sibling_files empty_disk \<and>
   writeGeneratedFilesToOutFolder sample_absoluteFrom [''out''] sibling_files empty_disk =
     Inr \<lparr>dirs = {[], [''out''], [''out'', ''actions'']},
          files = [[''out'', ''actions'', ''ping.ts''] \<mapsto> ''export type Ping = {}'',
                   [''out'', ''actions'', ''pong.ts''] \<mapsto> ''export type Pong = {}'']\<rparr>"
proof -
  have h: "emittable sample_absoluteFrom [''out''] sibling_files empty_disk"
    by (simp add: emittable_def sibling_files_def empty_disk_def sample_paths dirname_def
        sample_needed resolve_def)
  note T = writeGeneratedFilesToOutFolder_directories
    [of sample_absoluteFrom "[''out'']" sibling_files empty_disk]
  have "\<exists>s'. writeGeneratedFilesToOutFolder sample_absoluteFrom [''out''] sibling_files empty_disk = Inr s'"
    using T [THEN conjunct2, THEN conjunct2, THEN conjunct1] h by (rule mp)
  then obtain s' where
    r: "writeGeneratedFilesToOutFolder sample_absoluteFrom [''out''] sibling_files empty_disk = Inr s'" ..
  have a: "s' = \<lparr>dirs = dirs empty_disk \<union>
               (\<Union>f\<in>set sibling_files. set (needed_dirs (dirname (sample_absoluteFrom [''out''] (file_path f))))),
            files = fold (\<lambda>f m. m(resolve (sample_absoluteFrom [''out''] (file_path f)) \<mapsto> file_content f))
                      sibling_files (files empty_disk)\<rparr>"
    using T [THEN conjunct2, THEN conjunct1, rule_format, OF r] .
  have "s' = \<lparr>dirs = {[], [''out''], [''out'', ''actions'']},
          files = [[''out'', ''actions'', ''ping.ts''] \<mapsto> ''export type Ping = {}'',
                   [''out'', ''actions'', ''pong.ts''] \<mapsto> ''export type Pong = {}'']\<rparr>"
    unfolding a
    by (auto simp: sibling_files_def empty_disk_def sample_paths dirname_def sample_needed resolve_def)
  with h r show ?thesis by simp
qed

section \<open>Loading the definition\<close>

text \<open>
  C6, as stated, fails for a definition file that cannot be found:
  \<open>readIntegrationDefinitionFromFS\<close> then returns \<open>undefined\<close>, a value and not an
  error.
\<close>

theorem read_missing_file_returns:
  "fst (readIntegrationDefinitionFromFS missing_file_env) = Inr None"
  by (simp add: readIntegrationDefinitionFromFS_def missing_file_env_def)

text \<open>
  C6, amended. When the definition file does not exist, loading checks for the file,
  logs the debug message "Integration definition not found at" with the path, and
  returns \<open>undefined\<close> without an error and without calling the bundler. When the file
  exists, the bundler is called: its error reaches the caller as it is; a build without
  an output file raises the \<open>BotpressCLIError\<close> "Could not read integration
  definition"; otherwise the first output file is evaluated, an error of the evaluation
  reaches the caller as it is, and the default export of the evaluated bundle is returned
  as it is. The bundler and the evaluation are each called at most once: nothing is
  retried.
\<close>

theorem readIntegrationDefinitionFromFS_outcomes:
  "(\<not> existsSync W \<longrightarrow>
      readIntegrationDefinitionFromFS W =
        (Inr None,
         [ExistsSync, LoggerDebug (''Integration definition not found at '' @ rel_definition W)])) \<and>
   (existsSync W \<longrightarrow> buildEntrypoint W = Inl e \<longrightarrow>
      readIntegrationDefinitionFromFS W = (Inl e, [ExistsSync, BuildEntrypoint])) \<and>
   (existsSync W \<longrightarrow> buildEntrypoint W = Inr [] \<longrightarrow>
      readIntegrationDefinitionFromFS W =
        (Inl (BotpressCLIError ''Could not read integration definition''),
         [ExistsSync, BuildEntrypoint])) \<and>
   (existsSync W \<longrightarrow> buildEntrypoint W = Inr (artifact # others) \<longrightarrow>
      requireJsCode W artifact = Inl e \<longrightarrow>
      readIntegrationDefinitionFromFS W =
        (Inl e, [ExistsSync, BuildEntrypoint, RequireJsCode artifact])) \<and>
   (existsSync W \<longrightarrow> buildEntrypoint W = Inr (artifact # others) \<longrightarrow>
      requireJsCode W artifact = Inr d \<longrightarrow>
      readIntegrationDefinitionFromFS W =
        (Inr d, [ExistsSync, BuildEntrypoint, RequireJsCode artifact])) \<and>
   count_list (snd (readIntegrationDefinitionFromFS W)) BuildEntrypoint \<le> 1 \<and>
   length (filter (\<lambda>c. \<exists>t. c = RequireJsCode t) (snd (readIntegrationDefinitionFromFS W))) \<le> 1"
  by (auto simp: readIntegrationDefinitionFromFS_def split: sum.splits list.splits)

theorem readIntegrationDefinitionFromFS_outcomes_witness:
  "readIntegrationDefinitionFromFS failing_build_env =
     (Inl (BuildFailed ''syntax error''), [ExistsSync, BuildEntrypoint]) \<and>
   readIntegrationDefinitionFromFS loading_env =
     (Inr (Some 7), [ExistsSync, BuildEntrypoint, RequireJsCode ''bundle'']) \<and>
   readIntegrationDefinitionFromFS (loading_env\<lparr>existsSync := False\<rparr>) =
     (Inr None,
      [ExistsSync, LoggerDebug ''Integration definition not found at integration.definition.ts''])"
proof -
  have f: "existsSync failing_build_env"
    "buildEntrypoint failing_build_env = Inl (BuildFailed ''syntax error'')"
    by (simp_all add: failing_build_env_def)
  have l: "existsSync loading_env" "buildEntrypoint loading_env = Inr [''bundle'']"
    "requireJsCode loading_env ''bundle'' = Inr (Some 7)"
    by (simp_all add: loading_env_def)
  have n: "\<not> existsSync (loading_env\<lparr>existsSync := False\<rparr>)"
    "rel_definition (loading_env\<lparr>existsSync := False\<rparr>) = ''integration.definition.ts''"
    by (simp_all add: loading_env_def)
  show ?thesis
    using f l n
      readIntegrationDefinitionFromFS_outcomes [of failing_build_env "BuildFailed ''syntax error''"]
      readIntegrationDefinitionFromFS_outcomes [of loading_env _ "''bundle''" "[]" "Some 7"]
      readIntegrationDefinitionFromFS_outcomes [of "loading_env\<lparr>existsSync := False\<rparr>"]
    by simp
qed

end
